theory Spec2Isabelle
  imports Complex_Main
begin

section \<open>Counting engine (counting.py, input.py, models.py)\<close>

subsection \<open>Data model\<close>

text \<open>
  A Python value as \<open>json.loads\<close> produces it. The content of a message is such a
  value: \<open>parse_messages\<close> stores \<open>item["content"]\<close> unchecked. A dict is kept as
  its list of items; its keys are unique and \<open>map_of\<close> looks one up.
\<close>

datatype json =
    JNull
  | JBool bool
  | JNum rat
  | JStr string
  | JList "json list"
  | JDict "(string \<times> json) list"

text \<open>\<open>models.py\<close>, dataclass \<open>ModelDefinition\<close>.\<close>

record ModelDefinition =
  name :: string
  context_limit :: int
  tokenizer_type :: string

text \<open>\<open>input.py\<close>, dataclasses \<open>Message\<close> and \<open>InputData\<close>.\<close>

record Message =
  role :: string
  content :: json

record InputData =
  content :: string
  messages :: "Message list option"
  source :: string

text \<open>\<open>counting.py\<close>, dataclass \<open>CountingResult\<close>.\<close>

record CountingResult =
  model :: string
  input_tokens :: int
  error :: "string option"
  is_approximate :: bool

text \<open>
  The tokenizer is the external library \<open>tiktoken\<close>. A raised \<open>Exception\<close> is
  represented by its message \<open>str(e)\<close>, the only part of it the code reads.
  \<open>encoding.encode\<close> maps a text to its token identifiers or raises;
  \<open>tiktoken.encoding_for_model\<close> maps a model name to an encoding or raises.
\<close>

type_synonym exc = string
type_synonym encoding = "string \<Rightarrow> exc + nat list"
type_synonym tiktoken = "string \<Rightarrow> exc + encoding"

subsection \<open>Python primitives\<close>

text \<open>\<open>sep.join(parts)\<close>.\<close>

fun str_join :: "string \<Rightarrow> string list \<Rightarrow> string" where
  "str_join sep [] = []"
| "str_join sep [x] = x"
| "str_join sep (x # y # ys) = x @ sep @ str_join sep (y # ys)"

text \<open>\<open>try: body except Exception as e: handler(e)\<close>, both returning a value.\<close>

definition try_except :: "exc + 'a \<Rightarrow> (exc \<Rightarrow> 'a) \<Rightarrow> 'a" where
  "try_except body handler = (case body of Inl e \<Rightarrow> handler e | Inr v \<Rightarrow> v)"

text \<open>Sequencing of two steps the first of which may raise.\<close>

definition and_then :: "'e + 'a \<Rightarrow> ('a \<Rightarrow> 'e + 'b) \<Rightarrow> 'e + 'b" where
  "and_then r f = (case r of Inl e \<Rightarrow> Inl e | Inr v \<Rightarrow> f v)"

subsection \<open>The approximate message-counting strategy\<close>

text \<open>
  One round of the loop of \<open>_extract_text_from_content_array\<close>: \<open>text_parts\<close> is
  the list built so far.
\<close>

definition extract_item :: "string list \<Rightarrow> json \<Rightarrow> string list" where
  "extract_item text_parts item =
     (case item of
        JStr s \<Rightarrow> text_parts @ [s]
      | JDict d \<Rightarrow>
          (case map_of d ''text'' of
             Some (JStr t) \<Rightarrow> text_parts @ [t]
           | _ \<Rightarrow> text_parts)
      | _ \<Rightarrow> text_parts)"

definition extract_text_from_content_array :: "json list \<Rightarrow> string" where
  "extract_text_from_content_array content_array =
     str_join '' '' (foldl extract_item [] content_array)"

text \<open>One round of the loop of \<open>_count_messages_approximate\<close>.\<close>

definition message_parts :: "string list \<Rightarrow> Message \<Rightarrow> string list" where
  "message_parts text_parts message =
     (let role_text = ''<'' @ role message @ ''>'';
          text_parts = text_parts @ [role_text]
      in case Message.content message of
           JStr s \<Rightarrow> text_parts @ [s]
         | JList items \<Rightarrow>
             (let content_text = extract_text_from_content_array items
              in if content_text \<noteq> [] then text_parts @ [content_text] else text_parts)
         | _ \<Rightarrow> text_parts)"

definition full_text :: "Message list \<Rightarrow> string" where
  "full_text msgs = str_join [CHR 0x0A, CHR 0x0A] (foldl message_parts [] msgs)"

definition count_messages_approximate :: "Message list \<Rightarrow> encoding \<Rightarrow> exc + int" where
  "count_messages_approximate msgs encoding =
     and_then (encoding (full_text msgs)) (\<lambda>tokens. Inr (int (length tokens)))"

subsection \<open>Dispatch\<close>

definition count_provider_tokens :: "InputData \<Rightarrow> ModelDefinition \<Rightarrow> exc + CountingResult" where
  "count_provider_tokens input_data m =
     Inr \<lparr>model = name m, input_tokens = 0,
          error = Some ''Provider token counting not yet implemented'',
          is_approximate = False\<rparr>"

definition count_gpt4o_tokens :: "tiktoken \<Rightarrow> InputData \<Rightarrow> exc + CountingResult" where
  "count_gpt4o_tokens encoding_for_model input_data =
     (case encoding_for_model ''gpt-4o'' of
        Inl e \<Rightarrow>
          Inr \<lparr>model = ''gpt-4o'', input_tokens = 0,
               error = Some (''Failed to load tiktoken encoding: '' @ e),
               is_approximate = False\<rparr>
      | Inr encoding \<Rightarrow>
          Inr (try_except
            (case messages input_data of
               Some msgs \<Rightarrow>
                 and_then (count_messages_approximate msgs encoding) (\<lambda>token_count.
                   Inr \<lparr>model = ''gpt-4o'', input_tokens = token_count,
                        error = None, is_approximate = True\<rparr>)
             | None \<Rightarrow>
                 and_then (encoding (InputData.content input_data)) (\<lambda>tokens.
                   Inr \<lparr>model = ''gpt-4o'', input_tokens = int (length tokens),
                        error = None, is_approximate = False\<rparr>))
            (\<lambda>e. \<lparr>model = ''gpt-4o'', input_tokens = 0,
                  error = Some (''Token encoding failed: '' @ e),
                  is_approximate = False\<rparr>)))"

definition count_local_tokens ::
  "tiktoken \<Rightarrow> InputData \<Rightarrow> ModelDefinition \<Rightarrow> exc + CountingResult" where
  "count_local_tokens encoding_for_model input_data m =
     (if name m = ''gpt-4o'' then count_gpt4o_tokens encoding_for_model input_data
      else Inr \<lparr>model = name m, input_tokens = 0,
                error = Some (''Local counting not supported for model: '' @ name m),
                is_approximate = False\<rparr>)"

definition count_tokens :: "tiktoken \<Rightarrow> InputData \<Rightarrow> ModelDefinition \<Rightarrow> CountingResult" where
  "count_tokens encoding_for_model input_data m =
     try_except
       (if tokenizer_type m = ''local'' then count_local_tokens encoding_for_model input_data m
        else if tokenizer_type m = ''provider'' then count_provider_tokens input_data m
        else Inr \<lparr>model = name m, input_tokens = 0,
                  error = Some (''Unknown tokenizer type: '' @ tokenizer_type m),
                  is_approximate = False\<rparr>)
       (\<lambda>e. \<lparr>model = name m, input_tokens = 0,
             error = Some (''Token counting failed: '' @ e),
             is_approximate = False\<rparr>)"

section \<open>Budget analyzer (budget.py, cli.py)\<close>

subsection \<open>Python floats\<close>

text \<open>
  A Python \<open>float\<close> is an IEEE 754 double. A finite double is represented by its exact
  rational value; the two zeros are identified (they compare equal and \<open>int\<close> maps both
  to 0). The exceptions are those the arithmetic of \<open>budget.py\<close> can raise.
\<close>

datatype pyfloat = Finite rat | PosInf | NegInf | NaN

datatype pyerr = OverflowError | ValueError | ZeroDivisionError

text \<open>\<open>int.bit_length\<close> of a positive integer; 0 for the others.\<close>

function bit_length :: "int \<Rightarrow> nat" where
  "bit_length n = (if n \<le> 0 then 0 else Suc (bit_length (n div 2)))"
  by pat_completeness auto
termination
  by (relation "measure nat") auto

declare bit_length.simps [simp del]

text \<open>The exponent \<open>k\<close> with \<open>2^k \<le> x < 2^(k+1)\<close>, for positive \<open>x\<close>.\<close>

definition floor_log2 :: "rat \<Rightarrow> int" where
  "floor_log2 x =
     (if 1 \<le> x then int (bit_length \<lfloor>x\<rfloor>) - 1
      else - int (bit_length (\<lceil>1 / x\<rceil> - 1)))"

text \<open>The nearest integer, a tie going to the even one.\<close>

definition round_half_even :: "rat \<Rightarrow> int" where
  "round_half_even x =
     (let f = \<lfloor>x\<rfloor>; d = x - of_int f
      in if d < 1 / 2 then f
         else if 1 / 2 < d then f + 1
         else if even f then f else f + 1)"

text \<open>
  Rounding of a real number to a double, in the default mode (to nearest, ties to even):
  53 significant bits, the least exponent of a normal number is \<open>-1022\<close> (below it the
  spacing stays \<open>2^-1074\<close>), and a result of magnitude \<open>2^1024\<close> or more is an infinity.
\<close>

definition round_to_double :: "rat \<Rightarrow> pyfloat" where
  "round_to_double x =
     (let e = max (floor_log2 \<bar>x\<bar>) (- 1022) - 52;
          y = of_int (round_half_even (x / 2 powi e)) * 2 powi e
      in if 2 powi 1024 \<le> y then PosInf
         else if y \<le> - (2 powi 1024) then NegInf
         else Finite y)"

text \<open>A decimal literal of the source, such as \<open>0.95\<close>, is the double nearest to it.\<close>

definition float_lit :: "rat \<Rightarrow> pyfloat" where
  "float_lit d = round_to_double d"

text \<open>
  \<open>float(n)\<close> as \<open>int * float\<close> applies it to its left operand: correctly rounded,
  \<open>OverflowError\<close> when \<open>n\<close> is too large.
\<close>

definition int_to_float :: "int \<Rightarrow> pyerr + pyfloat" where
  "int_to_float n =
     (case round_to_double (of_int n) of
        Finite y \<Rightarrow> Inr (Finite y)
      | _ \<Rightarrow> Inl OverflowError)"

text \<open>
  \<open>a / b\<close> on two \<open>int\<close>s: the double nearest to the quotient, \<open>ZeroDivisionError\<close>
  for \<open>b = 0\<close>, \<open>OverflowError\<close> when the quotient is too large.
\<close>

definition py_truediv :: "int \<Rightarrow> int \<Rightarrow> pyerr + pyfloat" where
  "py_truediv a b =
     (if b = 0 then Inl ZeroDivisionError
      else case round_to_double (of_int a / of_int b) of
             Finite y \<Rightarrow> Inr (Finite y)
           | _ \<Rightarrow> Inl OverflowError)"

text \<open>\<open>x * y\<close> on two floats; it never raises, an overflow gives an infinity.\<close>

fun float_mul :: "pyfloat \<Rightarrow> pyfloat \<Rightarrow> pyfloat" where
  "float_mul (Finite a) (Finite b) = round_to_double (a * b)"
| "float_mul NaN _ = NaN"
| "float_mul _ NaN = NaN"
| "float_mul (Finite a) PosInf = (if a = 0 then NaN else if 0 < a then PosInf else NegInf)"
| "float_mul (Finite a) NegInf = (if a = 0 then NaN else if 0 < a then NegInf else PosInf)"
| "float_mul PosInf (Finite b) = (if b = 0 then NaN else if 0 < b then PosInf else NegInf)"
| "float_mul NegInf (Finite b) = (if b = 0 then NaN else if 0 < b then NegInf else PosInf)"
| "float_mul PosInf PosInf = PosInf"
| "float_mul NegInf NegInf = PosInf"
| "float_mul PosInf NegInf = NegInf"
| "float_mul NegInf PosInf = NegInf"

text \<open>\<open>n * x\<close> with \<open>n\<close> an \<open>int\<close> and \<open>x\<close> a float.\<close>

definition int_mul_float :: "int \<Rightarrow> pyfloat \<Rightarrow> pyerr + pyfloat" where
  "int_mul_float n x = and_then (int_to_float n) (\<lambda>f. Inr (float_mul f x))"

text \<open>Truncation toward zero.\<close>

definition py_trunc :: "rat \<Rightarrow> int" where
  "py_trunc x = (if 0 \<le> x then \<lfloor>x\<rfloor> else \<lceil>x\<rceil>)"

text \<open>\<open>int(x)\<close> on a float.\<close>

definition py_int :: "pyfloat \<Rightarrow> pyerr + int" where
  "py_int x =
     (case x of
        Finite v \<Rightarrow> Inr (py_trunc v)
      | NaN \<Rightarrow> Inl ValueError
      | _ \<Rightarrow> Inl OverflowError)"

text \<open>
  \<open>round(x, ndigits)\<close> on a float, for \<open>0 \<le> ndigits\<close>: the decimal with \<open>ndigits\<close>
  places nearest to the exact value of \<open>x\<close>, a tie going to the even last digit, then the
  double nearest to that decimal. Beyond 323 places, and on an infinity or a NaN, the
  result is \<open>x\<close>.
\<close>

definition py_round :: "pyfloat \<Rightarrow> nat \<Rightarrow> pyerr + pyfloat" where
  "py_round x ndigits =
     (case x of
        Finite v \<Rightarrow>
          (if 323 < ndigits then Inr x
           else case round_to_double (of_int (round_half_even (v * 10 ^ ndigits)) / 10 ^ ndigits) of
                  Finite y \<Rightarrow> Inr (Finite y)
                | _ \<Rightarrow> Inl OverflowError)
      | _ \<Rightarrow> Inr x)"

text \<open>\<open>x >= y\<close> on two floats.\<close>

fun float_ge :: "pyfloat \<Rightarrow> pyfloat \<Rightarrow> bool" where
  "float_ge NaN _ = False"
| "float_ge _ NaN = False"
| "float_ge PosInf _ = True"
| "float_ge _ NegInf = True"
| "float_ge NegInf _ = False"
| "float_ge _ PosInf = False"
| "float_ge (Finite a) (Finite b) = (b \<le> a)"

text \<open>The truth value of an \<open>Optional[str]\<close> in a condition.\<close>

definition truthy :: "string option \<Rightarrow> bool" where
  "truthy v = (case v of None \<Rightarrow> False | Some s \<Rightarrow> s \<noteq> [])"

subsection \<open>Data model\<close>

text \<open>\<open>cli.py\<close>, enum \<open>InputSource\<close> and dataclass \<open>CLIConfig\<close>.\<close>

datatype InputSource = STDIN | FILE | MESSAGES

record CLIConfig =
  models :: "string list"
  input_source :: InputSource
  input_path :: "string option"
  max_tokens :: "int option"
  reserve :: "int option"
  reserve_pct :: pyfloat
  json_output :: bool

text \<open>
  \<open>CLIConfig._validate_reserve_values\<close>, run when a configuration is constructed:
  true when it raises nothing.
\<close>

definition validate_reserve_values :: "CLIConfig \<Rightarrow> bool" where
  "validate_reserve_values config =
     (\<not> (case reserve config of Some r \<Rightarrow> r < 0 | None \<Rightarrow> False) \<and>
      float_ge (reserve_pct config) (Finite 0) \<and> float_ge (Finite 1) (reserve_pct config))"

text \<open>\<open>budget.py\<close>, dataclass \<open>BudgetResult\<close>.\<close>

record BudgetResult =
  model :: string
  input_tokens :: int
  context_limit :: int
  effective_limit :: int
  reserve :: int
  remaining_tokens :: int
  pct_used :: pyfloat
  warning :: "string option"
  error :: "string option"
  is_approximate :: bool

subsection \<open>The analysis\<close>

definition calculate_effective_limit :: "ModelDefinition \<Rightarrow> CLIConfig \<Rightarrow> int" where
  "calculate_effective_limit m config =
     (case max_tokens config of
        Some n \<Rightarrow> min (ModelDefinition.context_limit m) n
      | None \<Rightarrow> ModelDefinition.context_limit m)"

definition calculate_reserve :: "int \<Rightarrow> CLIConfig \<Rightarrow> pyerr + int" where
  "calculate_reserve effective_limit' config =
     (case CLIConfig.reserve config of
        Some n \<Rightarrow> Inr n
      | None \<Rightarrow> and_then (int_mul_float effective_limit' (reserve_pct config)) py_int)"

definition check_thresholds :: "pyfloat \<Rightarrow> int \<Rightarrow> string option \<times> string option" where
  "check_thresholds pct_used' remaining_tokens' =
     (if float_ge pct_used' (float_lit (95 / 100)) \<or> remaining_tokens' < 0
      then (None, Some ''error: exceeds budget'')
      else if float_ge pct_used' (float_lit (80 / 100))
      then (Some ''warning: near limit'', None)
      else (None, None))"

definition analyze_budget ::
  "CountingResult \<Rightarrow> ModelDefinition \<Rightarrow> CLIConfig \<Rightarrow> pyerr + BudgetResult" where
  "analyze_budget counting_result m config =
     (if truthy (CountingResult.error counting_result) then
        Inr \<lparr>model = name m, input_tokens = 0,
             context_limit = ModelDefinition.context_limit m,
             effective_limit = ModelDefinition.context_limit m,
             reserve = 0, remaining_tokens = 0, pct_used = Finite 0,
             warning = None, error = CountingResult.error counting_result,
             is_approximate = CountingResult.is_approximate counting_result\<rparr>
      else
        (let effective_limit' = calculate_effective_limit m config
         in and_then (calculate_reserve effective_limit' config) (\<lambda>reserve'.
              let remaining_tokens' =
                    effective_limit' - reserve' - CountingResult.input_tokens counting_result
              in and_then
                   (if effective_limit' = 0 then
                      Inr (if CountingResult.input_tokens counting_result = 0 then Finite 0
                           else float_lit (99999 / 100))
                    else
                      and_then
                        (py_truediv (CountingResult.input_tokens counting_result) effective_limit')
                        (\<lambda>q. py_round q 2))
                   (\<lambda>pct_used'.
                      case check_thresholds pct_used' remaining_tokens' of
                        (w, e) \<Rightarrow>
                          Inr \<lparr>model = name m,
                               input_tokens = CountingResult.input_tokens counting_result,
                               context_limit = ModelDefinition.context_limit m,
                               effective_limit = effective_limit',
                               reserve = reserve',
                               remaining_tokens = remaining_tokens',
                               pct_used = pct_used',
                               warning = w, error = e,
                               is_approximate =
                                 CountingResult.is_approximate counting_result\<rparr>))))"

section \<open>Specification-level definitions and example inputs\<close>

subsection \<open>The type tests of the message loop\<close>

text \<open>\<open>isinstance(v, str)\<close> and \<open>isinstance(v, list)\<close> on a parsed value.\<close>

definition is_str :: "json \<Rightarrow> bool" where
  "is_str v = (case v of JStr _ \<Rightarrow> True | _ \<Rightarrow> False)"

definition is_list :: "json \<Rightarrow> bool" where
  "is_list v = (case v of JList _ \<Rightarrow> True | _ \<Rightarrow> False)"

subsection \<open>The flat string, as the specification words it\<close>

text \<open>
  The text of one content item: a plain string is taken, a tagged object with a
  string-valued \<open>text\<close> field gives that value, any other item is skipped.
\<close>

definition spec_item_text :: "json \<Rightarrow> string option" where
  "spec_item_text item =
     (case item of
        JStr s \<Rightarrow> Some s
      | JDict d \<Rightarrow> (case map_of d ''text'' of Some (JStr t) \<Rightarrow> Some t | _ \<Rightarrow> None)
      | _ \<Rightarrow> None)"

text \<open>
  The text segment of a content, as a list of at most one segment: a string verbatim; for
  a list the texts of its items joined by single spaces, and no segment when that is
  empty; no segment for any other content.
\<close>

definition spec_extractable_text :: "json \<Rightarrow> string list" where
  "spec_extractable_text c =
     (case c of
        JStr s \<Rightarrow> [s]
      | JList items \<Rightarrow>
          (let t = str_join '' '' (List.map_filter spec_item_text items)
           in if t = [] then [] else [t])
      | _ \<Rightarrow> [])"

text \<open>
  For each message in order its role marker \<open><role>\<close>, then its text segment; all
  segments joined by two newlines.
\<close>

definition spec_segments :: "Message list \<Rightarrow> string list" where
  "spec_segments msgs =
     concat (map (\<lambda>m. (''<'' @ role m @ ''>'') # spec_extractable_text (Message.content m)) msgs)"

definition spec_full_text :: "Message list \<Rightarrow> string" where
  "spec_full_text msgs = str_join [CHR 0x0A, CHR 0x0A] (spec_segments msgs)"

subsection \<open>Example inputs of the counting engine\<close>

text \<open>
  A tokenizer with one token per character, one whose encoding raises, and one that
  cannot be acquired; the two models of the registry.
\<close>

definition byte_encoding :: encoding where
  "byte_encoding text = Inr (map of_char text)"

definition failing_encoding :: encoding where
  "failing_encoding text = Inl ''bad input''"

definition tiktoken_ok :: tiktoken where
  "tiktoken_ok model_name = Inr byte_encoding"

definition tiktoken_unavailable :: tiktoken where
  "tiktoken_unavailable model_name = Inl ''no network''"

definition tiktoken_failing :: tiktoken where
  "tiktoken_failing model_name = Inr failing_encoding"

definition gpt4o :: ModelDefinition where
  "gpt4o = \<lparr>name = ''gpt-4o'', context_limit = 128000, tokenizer_type = ''local''\<rparr>"

definition claude :: ModelDefinition where
  "claude = \<lparr>name = ''claude-3-5-sonnet'', context_limit = 200000, tokenizer_type = ''provider''\<rparr>"

definition example_messages :: "Message list" where
  "example_messages =
     [\<lparr>role = ''system'', content = JStr ''Hi''\<rparr>,
      \<lparr>role = ''user'', content =
         JList [JStr ''a'',
                JDict [(''type'', JStr ''text''), (''text'', JStr ''b'')],
                JDict [(''type'', JStr ''image''), (''url'', JStr ''u'')],
                JDict [(''text'', JNum 1)]]\<rparr>]"

definition messages_input :: InputData where
  "messages_input = \<lparr>content = ''Hi'', messages = Some example_messages, source = ''test''\<rparr>"

definition text_input :: InputData where
  "text_input = \<lparr>content = ''Hello'', messages = None, source = ''stdin''\<rparr>"

subsection \<open>Rounding half up, as the specification words it\<close>

text \<open>
  The specification's rounding of a ratio to \<open>ndigits\<close> decimal places with ties going
  up, on the exact ratio.
\<close>

definition spec_round_half_up :: "rat \<Rightarrow> nat \<Rightarrow> rat" where
  "spec_round_half_up x ndigits = of_int \<lfloor>x * 10 ^ ndigits + 1 / 2\<rfloor> / 10 ^ ndigits"


subsection \<open>Example inputs of the budget analyzer\<close>

text \<open>
  The fixtures of \<open>test_budget.py\<close>: the default configuration (reserve of 20 percent),
  a model with a context limit of 1000, and an outcome of \<open>n\<close> tokens without error.
\<close>

definition test_config :: CLIConfig where
  "test_config = \<lparr>models = [''gpt-4o''], input_source = STDIN, input_path = None,
     max_tokens = None, reserve = None, reserve_pct = float_lit (2 / 10), json_output = False\<rparr>"

definition test_model :: ModelDefinition where
  "test_model = \<lparr>name = ''gpt-4o'', context_limit = 1000, tokenizer_type = ''local''\<rparr>"

definition counted :: "int \<Rightarrow> CountingResult" where
  "counted n = \<lparr>CountingResult.model = ''gpt-4o'', input_tokens = n, error = None,
     is_approximate = False\<rparr>"

definition no_reserve_config :: CLIConfig where
  "no_reserve_config = test_config\<lparr>reserve_pct := Finite 0\<rparr>"

definition override_config :: CLIConfig where
  "override_config = test_config\<lparr>max_tokens := Some 800\<rparr>"

definition zero_model :: ModelDefinition where
  "zero_model = \<lparr>name = ''gpt-4o'', context_limit = 0, tokenizer_type = ''local''\<rparr>"

definition absolute_reserve_config :: CLIConfig where
  "absolute_reserve_config = test_config\<lparr>CLIConfig.reserve := Some 100\<rparr>"

definition full_reserve_config :: CLIConfig where
  "full_reserve_config = test_config\<lparr>reserve_pct := Finite 1\<rparr>"

definition empty_error_result :: CountingResult where
  "empty_error_result = \<lparr>CountingResult.model = ''gpt-4o'', input_tokens = 5, error = Some [],
     is_approximate = False\<rparr>"


section \<open>Properties of the counting engine\<close>

subsection \<open>Both iterations compute the segments of the specification\<close>

lemma extract_item_spec:
  "extract_item acc item = acc @ (case spec_item_text item of None \<Rightarrow> [] | Some s \<Rightarrow> [s])"
  by (simp add: extract_item_def spec_item_text_def split: json.splits option.splits)

lemma foldl_extract_item:
  "foldl extract_item acc items = acc @ List.map_filter spec_item_text items"
proof (induction items arbitrary: acc)
  case Nil
  show ?case by simp
next
  case (Cons item items)
  have "foldl extract_item acc (item # items) = foldl extract_item (extract_item acc item) items"
    by simp
  also have "\<dots> = extract_item acc item @ List.map_filter spec_item_text items"
    by (rule Cons.IH)
  also have "\<dots> = acc @ List.map_filter spec_item_text (item # items)"
    by (simp add: extract_item_spec split: option.splits)
  finally show ?case .
qed

lemma message_parts_spec:
  "message_parts acc m = acc @ (''<'' @ role m @ ''>'') # spec_extractable_text (Message.content m)"
  by (simp add: message_parts_def spec_extractable_text_def extract_text_from_content_array_def
        foldl_extract_item Let_def split: json.splits)

lemma foldl_message_parts:
  "foldl message_parts acc msgs = acc @ spec_segments msgs"
proof (induction msgs arbitrary: acc)
  case Nil
  show ?case by (simp add: spec_segments_def)
next
  case (Cons m msgs)
  have "foldl message_parts acc (m # msgs) = foldl message_parts (message_parts acc m) msgs"
    by simp
  also have "\<dots> = message_parts acc m @ spec_segments msgs"
    by (rule Cons.IH)
  also have "\<dots> = acc @ spec_segments (m # msgs)"
    by (simp add: message_parts_spec spec_segments_def)
  finally show ?case .
qed

lemma full_text_spec: "full_text msgs = spec_full_text msgs"
  by (simp add: full_text_def spec_full_text_def foldl_message_parts)

text \<open>
  Claim C3. For a model with the local strategy and the name \<open>gpt-4o\<close> and an input
  that carries a message list, once the tokenizer is acquired and encodes the flat string,
  the outcome's token count is the length of the encoding of the flat string of the
  specification (role marker \<open><role>\<close> per message, then its extractable text, all
  joined by two newlines), the outcome has no error and \<open>is_approximate\<close> is true.
\<close>

theorem approximate_count_flat_text:
  assumes "tokenizer_type m = ''local''" and "name m = ''gpt-4o''"
    and "messages inp = Some msgs"
    and "tk ''gpt-4o'' = Inr enc"
    and "enc (spec_full_text msgs) = Inr tokens"
  shows "count_tokens tk inp m =
     \<lparr>CountingResult.model = ''gpt-4o'', input_tokens = int (length tokens), error = None,
      is_approximate = True\<rparr>"
  using assms
  by (simp add: count_tokens_def count_local_tokens_def count_gpt4o_tokens_def
      count_messages_approximate_def try_except_def and_then_def full_text_spec)

text \<open>
  Claim C8. The three strategy-selection errors: a tokenizer type that is neither
  \<open>local\<close> nor \<open>provider\<close>, the provider strategy, and the local strategy with a
  model name other than \<open>gpt-4o\<close>. Each gives token count 0, the model's name and the
  stated message, whatever the input and the tokenizer.
\<close>

theorem count_tokens_strategy_errors:
  "(tokenizer_type m \<noteq> ''local'' \<and> tokenizer_type m \<noteq> ''provider'' \<longrightarrow>
      count_tokens tk inp m =
        \<lparr>CountingResult.model = name m, input_tokens = 0,
         error = Some (''Unknown tokenizer type: '' @ tokenizer_type m),
         is_approximate = False\<rparr>) \<and>
   (tokenizer_type m = ''provider'' \<longrightarrow>
      count_tokens tk inp m =
        \<lparr>CountingResult.model = name m, input_tokens = 0,
         error = Some ''Provider token counting not yet implemented'',
         is_approximate = False\<rparr>) \<and>
   (tokenizer_type m = ''local'' \<and> name m \<noteq> ''gpt-4o'' \<longrightarrow>
      count_tokens tk inp m =
        \<lparr>CountingResult.model = name m, input_tokens = 0,
         error = Some (''Local counting not supported for model: '' @ name m),
         is_approximate = False\<rparr>)"
  by (simp add: count_tokens_def count_local_tokens_def count_provider_tokens_def try_except_def)

text \<open>
  Claim C9. Whatever the tokenizer does, the input and the model, an outcome of
  \<open>count_tokens\<close> whose error is set has token count 0.
\<close>

theorem count_tokens_error_zero:
  "CountingResult.error (count_tokens tk inp m) \<noteq> None \<Longrightarrow>
   CountingResult.input_tokens (count_tokens tk inp m) = 0"
  by (auto simp: count_tokens_def count_local_tokens_def count_provider_tokens_def
      count_gpt4o_tokens_def count_messages_approximate_def try_except_def and_then_def
      split: if_splits sum.splits option.splits)


lemma spec_full_text_example:
  "spec_full_text example_messages =
     ''<system>'' @ [CHR 0x0A, CHR 0x0A] @ ''Hi'' @ [CHR 0x0A, CHR 0x0A] @ ''<user>'' @
     [CHR 0x0A, CHR 0x0A] @ ''a b''"
  by (simp add: spec_full_text_def spec_segments_def example_messages_def
      spec_extractable_text_def spec_item_text_def)

theorem approximate_count_flat_text_witness:
  "tokenizer_type gpt4o = ''local'' \<and> name gpt4o = ''gpt-4o'' \<and>
   messages messages_input = Some example_messages \<and>
   tiktoken_ok ''gpt-4o'' = Inr byte_encoding \<and>
   byte_encoding (spec_full_text example_messages) =
     Inr (map of_char (spec_full_text example_messages)) \<and>
   count_tokens tiktoken_ok messages_input gpt4o =
     \<lparr>CountingResult.model = ''gpt-4o'', input_tokens = 25, error = None, is_approximate = True\<rparr>"
proof -
  have h1: "tokenizer_type gpt4o = ''local''" and h2: "name gpt4o = ''gpt-4o''"
    by (simp_all add: gpt4o_def)
  have h3: "messages messages_input = Some example_messages"
    by (simp add: messages_input_def)
  have h4: "tiktoken_ok ''gpt-4o'' = Inr byte_encoding"
    by (simp add: tiktoken_ok_def)
  have h5: "byte_encoding (spec_full_text example_messages) =
     Inr (map of_char (spec_full_text example_messages))"
    by (simp add: byte_encoding_def)
  have "length (spec_full_text example_messages) = 25"
    by (simp add: spec_full_text_example)
  with approximate_count_flat_text [where m = gpt4o and inp = messages_input and msgs = example_messages
      and tk = tiktoken_ok and enc = byte_encoding, OF h1 h2 h3 h4 h5] h1 h2 h3 h4 h5
  show ?thesis by simp
qed

theorem count_tokens_strategy_errors_witness:
  "count_tokens tiktoken_ok text_input
      \<lparr>name = ''unknown-model'', context_limit = 1000, tokenizer_type = ''unknown''\<rparr> =
     \<lparr>CountingResult.model = ''unknown-model'', input_tokens = 0,
      error = Some ''Unknown tokenizer type: unknown'', is_approximate = False\<rparr> \<and>
   count_tokens tiktoken_ok text_input claude =
     \<lparr>CountingResult.model = ''claude-3-5-sonnet'', input_tokens = 0,
      error = Some ''Provider token counting not yet implemented'', is_approximate = False\<rparr> \<and>
   count_tokens tiktoken_ok text_input
      \<lparr>name = ''unsupported-local'', context_limit = 1000, tokenizer_type = ''local''\<rparr> =
     \<lparr>CountingResult.model = ''unsupported-local'', input_tokens = 0,
      error = Some ''Local counting not supported for model: unsupported-local'',
      is_approximate = False\<rparr>"
  using count_tokens_strategy_errors [of "\<lparr>name = ''unknown-model'', context_limit = 1000, tokenizer_type = ''unknown''\<rparr>"
              tiktoken_ok text_input]
        count_tokens_strategy_errors [of claude tiktoken_ok text_input]
        count_tokens_strategy_errors [of "\<lparr>name = ''unsupported-local'', context_limit = 1000, tokenizer_type = ''local''\<rparr>"
              tiktoken_ok text_input]
  by (simp add: claude_def)

theorem count_tokens_error_zero_witness:
  "CountingResult.error (count_tokens tiktoken_unavailable text_input gpt4o) =
     Some ''Failed to load tiktoken encoding: no network'' \<and>
   CountingResult.input_tokens (count_tokens tiktoken_unavailable text_input gpt4o) = 0 \<and>
   CountingResult.error (count_tokens tiktoken_failing messages_input gpt4o) =
     Some ''Token encoding failed: bad input'' \<and>
   CountingResult.input_tokens (count_tokens tiktoken_failing messages_input gpt4o) = 0"
proof -
  have e1: "CountingResult.error (count_tokens tiktoken_unavailable text_input gpt4o) =
     Some ''Failed to load tiktoken encoding: no network''"
    by (simp add: count_tokens_def count_local_tokens_def count_gpt4o_tokens_def
        tiktoken_unavailable_def gpt4o_def try_except_def)
  have e2: "CountingResult.error (count_tokens tiktoken_failing messages_input gpt4o) =
     Some ''Token encoding failed: bad input''"
    by (simp add: count_tokens_def count_local_tokens_def count_gpt4o_tokens_def
        count_messages_approximate_def tiktoken_failing_def failing_encoding_def
        messages_input_def gpt4o_def try_except_def and_then_def)
  from e1 have "CountingResult.input_tokens (count_tokens tiktoken_unavailable text_input gpt4o) = 0"
    by (intro count_tokens_error_zero) simp
  moreover from e2 have "CountingResult.input_tokens (count_tokens tiktoken_failing messages_input gpt4o) = 0"
    by (intro count_tokens_error_zero) simp
  ultimately show ?thesis using e1 e2 by simp
qed

lemma str_join_snoc_empty:
  "xs \<noteq> [] \<Longrightarrow> str_join sep (xs @ [[]]) = str_join sep xs @ sep"
  by (induction sep xs rule: str_join.induct) simp_all

text \<open>
  Claim C10. In the approximate strategy a message whose content is the empty string adds
  its role marker and an empty segment; a message whose content is a list with no
  extractable text, or is neither a string nor a list, adds its role marker only. The empty
  segment shows in the flat string as one more two-newline separator at the end.
\<close>

theorem empty_string_content_segment:
  "message_parts text_parts \<lparr>role = r, content = JStr []\<rparr> =
     text_parts @ [''<'' @ r @ ''>'', []] \<and>
   (extract_text_from_content_array items = [] \<longrightarrow>
      message_parts text_parts \<lparr>role = r, content = JList items\<rparr> =
        text_parts @ [''<'' @ r @ ''>'']) \<and>
   (\<not> is_str c \<and> \<not> is_list c \<longrightarrow>
      message_parts text_parts \<lparr>role = r, content = c\<rparr> = text_parts @ [''<'' @ r @ ''>'']) \<and>
   full_text (msgs @ [\<lparr>role = r, content = JStr []\<rparr>]) =
     full_text (msgs @ [\<lparr>role = r, content = JList []\<rparr>]) @ [CHR 0x0A, CHR 0x0A]"
proof (intro conjI impI)
  show "message_parts text_parts \<lparr>role = r, content = JStr []\<rparr> =
     text_parts @ [''<'' @ r @ ''>'', []]"
    by (simp add: message_parts_def)
next
  assume "extract_text_from_content_array items = []"
  then show "message_parts text_parts \<lparr>role = r, content = JList items\<rparr> =
        text_parts @ [''<'' @ r @ ''>'']"
    by (simp add: message_parts_def)
next
  assume "\<not> is_str c \<and> \<not> is_list c"
  then show "message_parts text_parts \<lparr>role = r, content = c\<rparr> =
      text_parts @ [''<'' @ r @ ''>'']"
    by (cases c) (simp_all add: message_parts_def is_str_def is_list_def)
next
  let ?ps = "foldl message_parts [] msgs @ [''<'' @ r @ ''>'']"
  have a: "foldl message_parts [] (msgs @ [\<lparr>role = r, content = JStr []\<rparr>]) = ?ps @ [[]]"
    by (simp add: message_parts_def)
  have b: "foldl message_parts [] (msgs @ [\<lparr>role = r, content = JList []\<rparr>]) = ?ps"
    by (simp add: message_parts_def extract_text_from_content_array_def)
  have "?ps \<noteq> []" by simp
  then have "str_join [CHR 0x0A, CHR 0x0A] (?ps @ [[]]) =
      str_join [CHR 0x0A, CHR 0x0A] ?ps @ [CHR 0x0A, CHR 0x0A]"
    by (rule str_join_snoc_empty)
  then show "full_text (msgs @ [\<lparr>role = r, content = JStr []\<rparr>]) =
     full_text (msgs @ [\<lparr>role = r, content = JList []\<rparr>]) @ [CHR 0x0A, CHR 0x0A]"
    unfolding full_text_def a b .
qed

theorem empty_string_content_segment_witness:
  "extract_text_from_content_array [JDict [(''type'', JStr ''image'')], JNum 3] = [] \<and>
   message_parts [] \<lparr>role = ''user'', content = JStr []\<rparr> = [''<user>'', []] \<and>
   message_parts [] \<lparr>role = ''user'',
       content = JList [JDict [(''type'', JStr ''image'')], JNum 3]\<rparr> = [''<user>''] \<and>
   \<not> is_str JNull \<and> \<not> is_list JNull \<and>
   message_parts [] \<lparr>role = ''user'', content = JNull\<rparr> = [''<user>''] \<and>
   full_text [\<lparr>role = ''user'', content = JStr []\<rparr>] = ''<user>'' @ [CHR 0x0A, CHR 0x0A] \<and>
   full_text [\<lparr>role = ''user'', content = JList []\<rparr>] = ''<user>''"
proof -
  have h1: "extract_text_from_content_array [JDict [(''type'', JStr ''image'')], JNum 3] = []"
    by (simp add: extract_text_from_content_array_def extract_item_def)
  have h2: "\<not> is_str JNull \<and> \<not> is_list JNull"
    by (simp add: is_str_def is_list_def)
  have h3: "full_text [\<lparr>role = ''user'', content = JList []\<rparr>] = ''<user>''"
    by (simp add: full_text_def message_parts_def extract_text_from_content_array_def)
  show ?thesis
    using empty_string_content_segment [of "[]" "''user''" "[JDict [(''type'', JStr ''image'')], JNum 3]" JNull "[]"]
      h1 h2 h3
    by simp
qed

section \<open>Properties of the budget analyzer\<close>

subsection \<open>Evaluating and bounding the float operations\<close>

lemma floor_rat_numeral [simp]:
  "\<lfloor>numeral a / numeral b :: rat\<rfloor> = numeral a div numeral b"
  "\<lfloor>- (numeral a / numeral b :: rat)\<rfloor> = - numeral a div numeral b"
  using floor_divide_of_int_eq [of "numeral a" "numeral b", where ?'a = rat]
        floor_divide_of_int_eq [of "- numeral a" "numeral b", where ?'a = rat]
  by simp_all

lemma ceiling_rat_numeral [simp]:
  "\<lceil>numeral a / numeral b :: rat\<rceil> = - (- numeral a div numeral b)"
  "\<lceil>- (numeral a / numeral b :: rat)\<rceil> = - (numeral a div numeral b)"
  unfolding ceiling_def by simp_all

lemmas float_eval = round_to_double_def floor_log2_def bit_length.simps round_half_even_def
  Let_def float_lit_def int_to_float_def py_truediv_def int_mul_float_def py_trunc_def
  py_int_def py_round_def and_then_def

lemma float_lit_values:
  "float_lit (80 / 100) = Finite (3602879701896397 / 4503599627370496)"
  "float_lit (95 / 100) = Finite (4278419646001971 / 4503599627370496)"
  "float_lit (99999 / 100) = Finite (4398002530638889 / 4398046511104)"
  "float_lit (2 / 10) = Finite (3602879701896397 / 18014398509481984)"
  by (simp_all add: float_eval)

lemma float_ge_zero_literals:
  "\<not> float_ge (Finite 0) (float_lit (95 / 100))"
  "\<not> float_ge (Finite 0) (float_lit (80 / 100))"
  "float_ge (float_lit (99999 / 100)) (float_lit (95 / 100))"
  unfolding float_lit_values by simp_all

lemma round_half_even_nearest:
  "\<bar>x - of_int (round_half_even x)\<bar> \<le> 1 / 2"
  "\<bar>x - of_int (round_half_even x)\<bar> = 1 / 2 \<Longrightarrow> even (round_half_even x)"
proof -
  have f: "of_int \<lfloor>x\<rfloor> \<le> x" "x < of_int \<lfloor>x\<rfloor> + 1"
    by linarith+
  from f show "\<bar>x - of_int (round_half_even x)\<bar> \<le> 1 / 2"
    by (auto simp: round_half_even_def Let_def)
  assume "\<bar>x - of_int (round_half_even x)\<bar> = 1 / 2"
  with f show "even (round_half_even x)"
    by (auto simp: round_half_even_def Let_def split: if_splits)
qed


text \<open>The rounding to a double meets its specification.\<close>

lemma bit_length_bounds:
  "0 < n \<Longrightarrow> n < 2 ^ bit_length n \<and> 2 ^ bit_length n \<le> 2 * n"
proof (induction n rule: bit_length.induct)
  case (1 n)
  from "1.prems" have bl: "bit_length n = Suc (bit_length (n div 2))"
    by (simp add: bit_length.simps)
  show ?case
  proof (cases "0 < n div 2")
    case False
    with "1.prems" have "n = 1" by linarith
    then show ?thesis by (simp add: bit_length.simps)
  next
    case True
    with "1.prems" "1.IH" have ih: "n div 2 < 2 ^ bit_length (n div 2)"
      "2 ^ bit_length (n div 2) \<le> 2 * (n div 2)"
      by simp_all
    have "n \<le> 2 * (n div 2) + 1" and "2 * (n div 2) \<le> n"
      by linarith+
    with ih show ?thesis
      unfolding bl by simp
  qed
qed

lemma floor_log2_bounds:
  assumes "0 < x"
  shows "2 powi floor_log2 x \<le> x" and "x < 2 powi (floor_log2 x + 1)"
proof -
  have "2 powi floor_log2 x \<le> x \<and> x < 2 powi (floor_log2 x + 1)"
  proof (cases "1 \<le> x")
    case True
    define n where "n = \<lfloor>x\<rfloor>"
    from True have n: "0 < n" by (simp add: n_def)
    have nx: "of_int n \<le> x" "x < of_int n + 1"
      unfolding n_def by linarith+
    from n obtain j where j: "bit_length n = Suc j"
      by (cases "bit_length n") (simp_all add: bit_length.simps)
    from bit_length_bounds [OF n] j have b: "n < 2 * 2 ^ j" "(2::int) ^ j \<le> n"
      by simp_all
    have k: "floor_log2 x = int j"
      using True j by (simp add: floor_log2_def n_def)
    from b(2) have "(2::rat) ^ j \<le> of_int n" by simp
    with nx have lo: "(2::rat) ^ j \<le> x" by linarith
    from b(1) have "n + 1 \<le> 2 * 2 ^ j" by simp
    then have "(of_int (n + 1) :: rat) \<le> of_int (2 * 2 ^ j)"
      by (simp only: of_int_le_iff)
    then have "(of_int n :: rat) + 1 \<le> 2 * 2 ^ j"
      by (simp only: of_int_add of_int_1 of_int_mult of_int_numeral of_int_power)
    with nx have hi: "x < 2 * (2::rat) ^ j" by linarith
    have "(2::rat) powi (int j + 1) = 2 * 2 ^ j"
      by (simp add: power_int_add)
    with lo hi k show ?thesis by simp
  next
    case False
    define n where "n = \<lceil>1 / x\<rceil> - 1"
    from False assms have y: "1 < 1 / x" by simp
    then have "1 < \<lceil>1 / x\<rceil>" by (simp add: less_ceiling_iff)
    then have n: "0 < n" by (simp add: n_def)
    have ny: "1 / x \<le> of_int n + 1" "of_int n < 1 / x"
      unfolding n_def by linarith+
    from n obtain j where j: "bit_length n = Suc j"
      by (cases "bit_length n") (simp_all add: bit_length.simps)
    from bit_length_bounds [OF n] j have b: "n < 2 * 2 ^ j" "(2::int) ^ j \<le> n"
      by simp_all
    have k: "floor_log2 x = - int (Suc j)"
      using False j by (simp add: floor_log2_def n_def)
    from b(1) have "n + 1 \<le> 2 * 2 ^ j" by simp
    then have "(of_int (n + 1) :: rat) \<le> of_int (2 * 2 ^ j)"
      by (simp only: of_int_le_iff)
    then have "(of_int n :: rat) + 1 \<le> 2 * 2 ^ j"
      by (simp only: of_int_add of_int_1 of_int_mult of_int_numeral of_int_power)
    with ny have "1 / x \<le> 2 * 2 ^ j" by linarith
    with assms have "1 \<le> 2 * 2 ^ j * x"
      by (simp add: field_simps)
    then have lo: "1 / (2 * 2 ^ j) \<le> x"
      by (simp add: field_simps)
    from b(2) have "(2::rat) ^ j \<le> of_int n" by simp
    with ny have "(2::rat) ^ j < 1 / x" by linarith
    with assms have "2 ^ j * x < 1"
      by (simp add: field_simps)
    then have hi: "x < 1 / 2 ^ j"
      by (simp add: field_simps)
    have p1: "(2::rat) powi (- int (Suc j)) = 1 / (2 * 2 ^ j)"
      by (simp add: power_int_minus_divide del: of_nat_Suc)
    have p2: "(2::rat) powi (- int (Suc j) + 1) = 1 / 2 ^ j"
      by (simp add: power_int_minus_divide)
    from lo hi k p1 p2 show ?thesis by simp
  qed
  then show "2 powi floor_log2 x \<le> x" and "x < 2 powi (floor_log2 x + 1)"
    by simp_all
qed



lemma round_to_double_Finite:
  assumes "round_to_double x = Finite y"
  shows "y = of_int (round_half_even (x / 2 powi (max (floor_log2 \<bar>x\<bar>) (- 1022) - 52))) *
             2 powi (max (floor_log2 \<bar>x\<bar>) (- 1022) - 52)"
  using assms by (simp add: round_to_double_def Let_def split: if_splits)

lemma round_to_double_error:
  assumes "round_to_double x = Finite y"
  shows "\<bar>y - x\<bar> \<le> 2 powi (max (floor_log2 \<bar>x\<bar>) (- 1022) - 53)"
proof -
  define e where "e = max (floor_log2 \<bar>x\<bar>) (- 1022) - 52"
  define u :: rat where "u = 2 powi e"
  have u: "0 < u" by (simp add: u_def)
  from round_to_double_Finite [OF assms]
  have y: "y = of_int (round_half_even (x / u)) * u"
    by (simp add: e_def u_def)
  have "\<bar>x / u - of_int (round_half_even (x / u))\<bar> \<le> 1 / 2"
    by (rule round_half_even_nearest)
  then have "\<bar>x / u - of_int (round_half_even (x / u))\<bar> * u \<le> 1 / 2 * u"
    using u by (simp only: mult_le_cancel_right_pos)
  moreover have "\<bar>x / u - of_int (round_half_even (x / u))\<bar> * u = \<bar>x - y\<bar>"
  proof -
    have "\<bar>x / u - of_int (round_half_even (x / u))\<bar> * u =
        \<bar>(x / u - of_int (round_half_even (x / u))) * u\<bar>"
      using u by (simp add: abs_mult)
    also have "(x / u - of_int (round_half_even (x / u))) * u = x - y"
      using u by (simp add: y algebra_simps)
    finally show ?thesis .
  qed
  moreover have "1 / 2 * u = 2 powi (max (floor_log2 \<bar>x\<bar>) (- 1022) - 53)"
  proof -
    have "(2::rat) powi (e - 1) = 2 powi e * 2 powi (- 1)"
      by (simp add: power_int_diff)
    then show ?thesis
      by (simp add: u_def e_def)
  qed
  ultimately show ?thesis
    by (simp add: abs_minus_commute)
qed

lemma round_to_double_relative_error:
  assumes "round_to_double x = Finite y" and "2 powi (- 1022) \<le> \<bar>x\<bar>"
  shows "\<bar>y - x\<bar> \<le> \<bar>x\<bar> * 2 powi (- 53)"
proof -
  have "(0::rat) < 2 powi (- 1022)"
    by (rule zero_less_power_int) simp
  with assms(2) have pos: "0 < \<bar>x\<bar>" by linarith
  define k where "k = floor_log2 \<bar>x\<bar>"
  from floor_log2_bounds [OF pos]
  have lo: "2 powi k \<le> \<bar>x\<bar>" and hi: "\<bar>x\<bar> < 2 powi (k + 1)"
    by (simp_all add: k_def)
  from assms(2) hi have lt: "(2::rat) powi (- 1022) < 2 powi (k + 1)" by linarith
  have "- 1022 < k + 1"
  proof (rule ccontr)
    assume "\<not> - 1022 < k + 1"
    then have "k + 1 \<le> - 1022" by simp
    then have "(2::rat) powi (k + 1) \<le> 2 powi (- 1022)"
      by (rule power_int_increasing) simp
    with lt show False by linarith
  qed
  then have k: "max k (- 1022) = k" by simp
  from round_to_double_error [OF assms(1)] k
  have "\<bar>y - x\<bar> \<le> 2 powi (k - 53)" by (simp add: k_def)
  also have "(2::rat) powi (k - 53) = 2 powi k * 2 powi (- 53)"
    by (simp add: power_int_diff power_int_minus_divide)
  also from lo have "2 powi k * 2 powi (- 53) \<le> \<bar>x\<bar> * 2 powi (- 53)"
    by (simp only: mult_le_cancel_right_pos zero_less_power_int zero_less_numeral)
  finally show ?thesis .
qed






lemma floor_log2_zero: "floor_log2 0 = 0"
  by (simp add: floor_log2_def bit_length.simps)

lemma floor_log2_le:
  assumes "\<bar>x\<bar> \<le> 2 powi N" and "0 \<le> N"
  shows "floor_log2 \<bar>x\<bar> \<le> N"
proof (cases "x = 0")
  case True
  with assms(2) show ?thesis by (simp add: floor_log2_zero)
next
  case False
  then have "0 < \<bar>x\<bar>" by simp
  from floor_log2_bounds(1) [OF this] assms(1)
  have le: "(2::rat) powi floor_log2 \<bar>x\<bar> \<le> 2 powi N" by linarith
  show ?thesis
  proof (rule ccontr)
    assume "\<not> floor_log2 \<bar>x\<bar> \<le> N"
    then have "N < floor_log2 \<bar>x\<bar>" by simp
    then have "(2::rat) powi N < 2 powi floor_log2 \<bar>x\<bar>"
      by (rule power_int_strict_increasing) simp
    with le show False by linarith
  qed
qed

lemma round_to_double_in_range:
  assumes "\<bar>x\<bar> \<le> 2 powi N" and "0 \<le> N" and "N \<le> 1022"
  obtains y where "round_to_double x = Finite y" and "\<bar>y\<bar> \<le> 2 powi (N + 1)"
    and "\<bar>y - x\<bar> \<le> 2 powi (N - 53)"
proof -
  define e where "e = max (floor_log2 \<bar>x\<bar>) (- 1022) - 52"
  define u :: rat where "u = 2 powi e"
  define y where "y = of_int (round_half_even (x / u)) * u"
  have u: "0 < u" by (simp add: u_def)
  from floor_log2_le [OF assms(1,2)] assms(2) have e: "e - 1 \<le> N - 53"
    by (simp add: e_def)
  have "\<bar>x / u - of_int (round_half_even (x / u))\<bar> \<le> 1 / 2"
    by (rule round_half_even_nearest)
  then have "\<bar>x / u - of_int (round_half_even (x / u))\<bar> * u \<le> 1 / 2 * u"
    using u by (simp only: mult_le_cancel_right_pos)
  moreover have "\<bar>x / u - of_int (round_half_even (x / u))\<bar> * u = \<bar>x - y\<bar>"
  proof -
    have "\<bar>x / u - of_int (round_half_even (x / u))\<bar> * u =
        \<bar>(x / u - of_int (round_half_even (x / u))) * u\<bar>"
      using u by (simp add: abs_mult)
    also have "(x / u - of_int (round_half_even (x / u))) * u = x - y"
      using u by (simp add: y_def algebra_simps)
    finally show ?thesis .
  qed
  moreover have "1 / 2 * u = 2 powi (e - 1)"
  proof -
    have "(2::rat) powi (e - 1) = 2 powi e * 2 powi (- 1)"
      by (simp add: power_int_diff)
    then show ?thesis by (simp add: u_def)
  qed
  ultimately have "\<bar>x - y\<bar> \<le> 2 powi (e - 1)" by simp
  moreover from e have "(2::rat) powi (e - 1) \<le> 2 powi (N - 53)"
    by (rule power_int_increasing) simp
  ultimately have err: "\<bar>y - x\<bar> \<le> 2 powi (N - 53)"
    by (simp add: abs_minus_commute)
  have "(2::rat) powi (N - 53) \<le> 2 powi N"
    by (rule power_int_increasing) simp_all
  with err assms(1) have "\<bar>y\<bar> \<le> 2 powi N + 2 powi N" by linarith
  moreover have "(2::rat) powi (N + 1) = 2 powi N + 2 powi N"
    by (simp add: power_int_add)
  ultimately have bound: "\<bar>y\<bar> \<le> 2 powi (N + 1)" by simp
  from assms(3) have "N + 1 < 1024" by simp
  then have "(2::rat) powi (N + 1) < 2 powi 1024"
    by (rule power_int_strict_increasing) simp
  with bound have "\<not> 2 powi 1024 \<le> y" "\<not> y \<le> - (2 powi 1024)"
    by linarith+
  then have "round_to_double x = Finite y"
    unfolding round_to_double_def Let_def e_def [symmetric] u_def [symmetric] y_def [symmetric]
    by simp
  with bound err that show thesis by blast
qed

lemma py_truediv_Inr:
  assumes "py_truediv a b = Inr q"
  obtains v where "b \<noteq> 0" and "round_to_double (of_int a / of_int b) = Finite v"
    and "q = Finite v"
proof (cases "round_to_double (of_int a / of_int b)")
  case (Finite v)
  with assms have "b \<noteq> 0" and "q = Finite v"
    by (auto simp: py_truediv_def split: if_splits)
  with Finite that show thesis by blast
next
  case PosInf
  with assms show thesis by (simp add: py_truediv_def split: if_splits)
next
  case NegInf
  with assms show thesis by (simp add: py_truediv_def split: if_splits)
next
  case NaN
  with assms show thesis by (simp add: py_truediv_def split: if_splits)
qed

lemma py_round_2_Inr:
  "py_round (Finite v) 2 = Inr p \<Longrightarrow>
   p = float_lit (of_int (round_half_even (v * 100)) / 100)"
  by (auto simp: py_round_def float_lit_def split: pyfloat.splits)

subsection \<open>The paths of the analysis\<close>

lemma analyze_budget_counted:
  assumes "\<not> truthy (CountingResult.error cr)"
    and "calculate_reserve (calculate_effective_limit m cfg) cfg = Inr rsv"
    and "(if calculate_effective_limit m cfg = 0
          then Inr (if CountingResult.input_tokens cr = 0 then Finite 0
                    else float_lit (99999 / 100))
          else and_then (py_truediv (CountingResult.input_tokens cr)
                           (calculate_effective_limit m cfg)) (\<lambda>q. py_round q 2)) = Inr pct"
    and "check_thresholds pct
           (calculate_effective_limit m cfg - rsv - CountingResult.input_tokens cr) = (w, e)"
  shows "analyze_budget cr m cfg =
     Inr \<lparr>BudgetResult.model = name m,
          input_tokens = CountingResult.input_tokens cr,
          context_limit = ModelDefinition.context_limit m,
          effective_limit = calculate_effective_limit m cfg,
          reserve = rsv,
          remaining_tokens =
            calculate_effective_limit m cfg - rsv - CountingResult.input_tokens cr,
          pct_used = pct, warning = w, error = e,
          is_approximate = CountingResult.is_approximate cr\<rparr>"
  using assms unfolding analyze_budget_def Let_def and_then_def
  by (simp split: sum.splits)

text \<open>
  The analysis raises nothing on a validated configuration when the token count and the
  effective limit are below \<open>2^1000\<close> in magnitude: the exceptions of the float
  arithmetic need integers beyond the range of a double.
\<close>

lemma validate_reserve_values_pct:
  assumes "validate_reserve_values cfg"
  obtains p where "reserve_pct cfg = Finite p" and "0 \<le> p" and "p \<le> 1"
  using assms by (cases "reserve_pct cfg") (simp_all add: validate_reserve_values_def)

lemma calculate_reserve_total:
  assumes "validate_reserve_values cfg" and "\<bar>eff\<bar> \<le> 2 ^ 1000"
  obtains rsv where "calculate_reserve eff cfg = Inr rsv"
proof (cases "CLIConfig.reserve cfg")
  case (Some n)
  then have "calculate_reserve eff cfg = Inr n"
    by (simp add: calculate_reserve_def)
  with that show thesis .
next
  case None
  from assms(1) obtain p where p: "reserve_pct cfg = Finite p" "0 \<le> p" "p \<le> 1"
    by (rule validate_reserve_values_pct)
  from assms(2) have "(of_int \<bar>eff\<bar> :: rat) \<le> of_int (2 ^ 1000)"
    by (simp only: of_int_le_iff)
  then have "\<bar>of_int eff :: rat\<bar> \<le> 2 powi 1000"
    by (simp only: of_int_abs of_int_power of_int_numeral power_int_numeral)
  then obtain f where f: "round_to_double (of_int eff) = Finite f" "\<bar>f\<bar> \<le> 2 powi (1000 + 1)"
    by (rule round_to_double_in_range) simp_all
  have "\<bar>f * p\<bar> = \<bar>f\<bar> * p"
    using p(2) by (simp add: abs_mult)
  also have "\<dots> \<le> \<bar>f\<bar> * 1"
    using p(3) by (intro mult_left_mono) simp_all
  finally have "\<bar>f * p\<bar> \<le> 2 powi 1001"
    using f(2) by simp
  then obtain g where g: "round_to_double (f * p) = Finite g"
    by (rule round_to_double_in_range) simp_all
  have "calculate_reserve eff cfg = Inr (py_trunc g)"
    using None p(1) f(1) g
    by (simp add: calculate_reserve_def int_mul_float_def int_to_float_def and_then_def
        py_int_def)
  with that show thesis .
qed

lemma percent_total:
  assumes "\<bar>n\<bar> \<le> 2 ^ 1000" and "eff \<noteq> 0"
  obtains pct where "and_then (py_truediv n eff) (\<lambda>q. py_round q 2) = Inr pct"
proof -
  from assms(2) have "1 \<le> \<bar>eff\<bar>" by simp
  then have "(of_int 1 :: rat) \<le> of_int \<bar>eff\<bar>"
    by (simp only: of_int_le_iff)
  then have e1: "1 \<le> \<bar>of_int eff :: rat\<bar>" by simp
  from assms(1) have "(of_int \<bar>n\<bar> :: rat) \<le> of_int (2 ^ 1000)"
    by (simp only: of_int_le_iff)
  then have n: "\<bar>of_int n :: rat\<bar> \<le> 2 powi 1000"
    by (simp only: of_int_abs of_int_power of_int_numeral power_int_numeral)
  have "\<bar>of_int n / of_int eff :: rat\<bar> = \<bar>of_int n\<bar> / \<bar>of_int eff\<bar>"
    by (simp only: abs_divide)
  also have "\<dots> \<le> \<bar>of_int n\<bar> / 1"
    using e1 by (intro divide_left_mono) simp_all
  finally have "\<bar>of_int n / of_int eff :: rat\<bar> \<le> 2 powi 1000"
    using n by simp
  then obtain q where q: "round_to_double (of_int n / of_int eff) = Finite q"
    "\<bar>q\<bar> \<le> 2 powi (1000 + 1)"
    by (rule round_to_double_in_range) simp_all
  define k where "k = round_half_even (q * 100)"
  have "\<bar>q * 100 - of_int k\<bar> \<le> 1 / 2"
    unfolding k_def by (rule round_half_even_nearest)
  then have "\<bar>of_int k / 100 - q\<bar> \<le> 1"
    by linarith
  moreover have "(1::rat) \<le> 2 powi 1001"
    by (rule one_le_power_int) simp_all
  ultimately have "\<bar>of_int k / 100 :: rat\<bar> \<le> 2 powi 1001 + 2 powi 1001"
    using q(2) by simp
  moreover have "(2::rat) powi (1001 + 1) = 2 powi 1001 + 2 powi 1001"
    by (simp add: power_int_add)
  ultimately have "\<bar>of_int k / 100 :: rat\<bar> \<le> 2 powi (1001 + 1)" by simp
  then obtain y where y: "round_to_double (of_int k / 100) = Finite y"
    by (rule round_to_double_in_range) simp_all
  have "and_then (py_truediv n eff) (\<lambda>q. py_round q 2) = Inr (Finite y)"
    using assms(2) q(1) y
    by (simp add: py_truediv_def py_round_def and_then_def k_def)
  with that show thesis .
qed

lemma analyze_budget_total:
  assumes "validate_reserve_values cfg"
    and "\<bar>CountingResult.input_tokens cr\<bar> \<le> 2 ^ 1000"
    and "\<bar>calculate_effective_limit m cfg\<bar> \<le> 2 ^ 1000"
  shows "\<exists>r. analyze_budget cr m cfg = Inr r"
proof (cases "truthy (CountingResult.error cr)")
  case True
  then show ?thesis by (simp add: analyze_budget_def)
next
  case False
  from assms(1,3) obtain rsv where
    rsv: "calculate_reserve (calculate_effective_limit m cfg) cfg = Inr rsv"
    by (rule calculate_reserve_total)
  obtain pct where pct: "(if calculate_effective_limit m cfg = 0
          then Inr (if CountingResult.input_tokens cr = 0 then Finite 0
                    else float_lit (99999 / 100))
          else and_then (py_truediv (CountingResult.input_tokens cr)
                           (calculate_effective_limit m cfg)) (\<lambda>q. py_round q 2)) = Inr pct"
  proof (cases "calculate_effective_limit m cfg = 0")
    case True
    with that show thesis by simp
  next
    case False
    from assms(2) False obtain pct where
      "and_then (py_truediv (CountingResult.input_tokens cr)
         (calculate_effective_limit m cfg)) (\<lambda>q. py_round q 2) = Inr pct"
      by (rule percent_total)
    with False that show thesis by simp
  qed
  obtain w e where "check_thresholds pct
      (calculate_effective_limit m cfg - rsv - CountingResult.input_tokens cr) = (w, e)"
    by (cases "check_thresholds pct
      (calculate_effective_limit m cfg - rsv - CountingResult.input_tokens cr)")
  from analyze_budget_counted [OF False rsv pct this] show ?thesis by blast
qed

lemma analyze_budget_cases:
  assumes "\<not> truthy (CountingResult.error cr)"
    and "analyze_budget cr m cfg = Inr r"
  obtains rsv pct where
    "calculate_reserve (calculate_effective_limit m cfg) cfg = Inr rsv"
    "(if calculate_effective_limit m cfg = 0
          then Inr (if CountingResult.input_tokens cr = 0 then Finite 0
                    else float_lit (99999 / 100))
          else and_then (py_truediv (CountingResult.input_tokens cr)
                           (calculate_effective_limit m cfg)) (\<lambda>q. py_round q 2)) = Inr pct"
    "r = \<lparr>BudgetResult.model = name m,
          input_tokens = CountingResult.input_tokens cr,
          context_limit = ModelDefinition.context_limit m,
          effective_limit = calculate_effective_limit m cfg,
          reserve = rsv,
          remaining_tokens =
            calculate_effective_limit m cfg - rsv - CountingResult.input_tokens cr,
          pct_used = pct,
          warning = fst (check_thresholds pct
            (calculate_effective_limit m cfg - rsv - CountingResult.input_tokens cr)),
          error = snd (check_thresholds pct
            (calculate_effective_limit m cfg - rsv - CountingResult.input_tokens cr)),
          is_approximate = CountingResult.is_approximate cr\<rparr>"
  using assms unfolding analyze_budget_def Let_def and_then_def
  by (auto split: sum.splits prod.splits if_splits)

lemma analyze_budget_eval:
  assumes "\<not> truthy (CountingResult.error cr)"
    and "CountingResult.input_tokens cr = n"
    and "CountingResult.is_approximate cr = ap"
    and "name m = nm"
    and "ModelDefinition.context_limit m = cl"
    and "calculate_effective_limit m cfg = eff"
    and "calculate_reserve eff cfg = Inr rsv"
    and "eff - rsv - n = rem"
    and "(if eff = 0 then Inr (if n = 0 then Finite 0 else float_lit (99999 / 100))
          else and_then (py_truediv n eff) (\<lambda>q. py_round q 2)) = Inr pct"
    and "check_thresholds pct rem = (w, e)"
  shows "analyze_budget cr m cfg =
     Inr \<lparr>BudgetResult.model = nm, input_tokens = n, context_limit = cl,
          effective_limit = eff, reserve = rsv, remaining_tokens = rem,
          pct_used = pct, warning = w, error = e, is_approximate = ap\<rparr>"
proof -
  have "calculate_reserve (calculate_effective_limit m cfg) cfg = Inr rsv"
    unfolding assms(6) by (fact assms(7))
  moreover have "(if calculate_effective_limit m cfg = 0
          then Inr (if CountingResult.input_tokens cr = 0 then Finite 0
                    else float_lit (99999 / 100))
          else and_then (py_truediv (CountingResult.input_tokens cr)
                           (calculate_effective_limit m cfg)) (\<lambda>q. py_round q 2)) = Inr pct"
    unfolding assms(2) assms(6) by (fact assms(9))
  moreover have "check_thresholds pct
           (calculate_effective_limit m cfg - rsv - CountingResult.input_tokens cr) = (w, e)"
    unfolding assms(2) assms(6) assms(8) by (fact assms(10))
  ultimately have "analyze_budget cr m cfg =
     Inr \<lparr>BudgetResult.model = name m,
          input_tokens = CountingResult.input_tokens cr,
          context_limit = ModelDefinition.context_limit m,
          effective_limit = calculate_effective_limit m cfg,
          reserve = rsv,
          remaining_tokens =
            calculate_effective_limit m cfg - rsv - CountingResult.input_tokens cr,
          pct_used = pct, warning = w, error = e,
          is_approximate = CountingResult.is_approximate cr\<rparr>"
    by (rule analyze_budget_counted [OF assms(1)])
  then show ?thesis
    unfolding assms(2) assms(3) assms(4) assms(5) assms(6) assms(8) .
qed

lemma check_thresholds_fst_snd:
  "snd (check_thresholds pct rem) =
     (if float_ge pct (float_lit (95 / 100)) \<or> rem < 0
      then Some ''error: exceeds budget'' else None)"
  "fst (check_thresholds pct rem) =
     (if \<not> (float_ge pct (float_lit (95 / 100)) \<or> rem < 0) \<and>
         float_ge pct (float_lit (80 / 100))
      then Some ''warning: near limit'' else None)"
  by (simp_all add: check_thresholds_def)

lemma analyze_budget_short_circuit:
  "truthy (CountingResult.error cr) \<Longrightarrow>
   analyze_budget cr m cfg =
     Inr \<lparr>BudgetResult.model = name m, input_tokens = 0,
          context_limit = ModelDefinition.context_limit m,
          effective_limit = ModelDefinition.context_limit m,
          reserve = 0, remaining_tokens = 0, pct_used = Finite 0,
          warning = None, error = CountingResult.error cr,
          is_approximate = CountingResult.is_approximate cr\<rparr>"
  by (simp add: analyze_budget_def)

subsection \<open>The scenarios of the specification and of the tests\<close>

lemmas config_eval = calculate_effective_limit_def calculate_reserve_def test_model_def
  test_config_def no_reserve_config_def override_config_def counted_def truthy_def

lemmas config_eval2 = config_eval zero_model_def absolute_reserve_config_def
  full_reserve_config_def empty_error_result_def

lemma counted_simps:
  "\<not> truthy (CountingResult.error (counted n))"
  "CountingResult.input_tokens (counted n) = n"
  "CountingResult.is_approximate (counted n) = False"
  by (simp_all add: counted_def truthy_def)

lemma scenario_a:
  "analyze_budget (counted 100) test_model test_config =
     Inr \<lparr>BudgetResult.model = ''gpt-4o'', input_tokens = 100, context_limit = 1000,
          effective_limit = 1000, reserve = 200, remaining_tokens = 700,
          pct_used = float_lit (10 / 100), warning = None, error = None,
          is_approximate = False\<rparr>"
proof (rule analyze_budget_eval)
  show "calculate_reserve 1000 test_config = Inr 200"
    by (simp add: config_eval float_eval)
  show "(if (1000::int) = 0 then Inr (if (100::int) = 0 then Finite 0 else float_lit (99999 / 100))
          else and_then (py_truediv 100 1000) (\<lambda>q. py_round q 2)) = Inr (float_lit (10 / 100))"
    by (simp add: float_eval)
  show "check_thresholds (float_lit (10 / 100)) 700 = (None, None)"
    by (simp add: check_thresholds_def float_eval)
qed (simp_all add: config_eval)

lemma scenario_b:
  "analyze_budget (counted 800) test_model no_reserve_config =
     Inr \<lparr>BudgetResult.model = ''gpt-4o'', input_tokens = 800, context_limit = 1000,
          effective_limit = 1000, reserve = 0, remaining_tokens = 200,
          pct_used = float_lit (80 / 100), warning = Some ''warning: near limit'',
          error = None, is_approximate = False\<rparr>"
proof (rule analyze_budget_eval)
  show "calculate_reserve 1000 no_reserve_config = Inr 0"
    by (simp add: config_eval float_eval)
  show "(if (1000::int) = 0 then Inr (if (800::int) = 0 then Finite 0 else float_lit (99999 / 100))
          else and_then (py_truediv 800 1000) (\<lambda>q. py_round q 2)) = Inr (float_lit (80 / 100))"
    by (simp add: float_eval)
  show "check_thresholds (float_lit (80 / 100)) 200 = (Some ''warning: near limit'', None)"
    by (simp add: check_thresholds_def float_eval)
qed (simp_all add: config_eval)

lemma scenario_c:
  "analyze_budget (counted 950) test_model no_reserve_config =
     Inr \<lparr>BudgetResult.model = ''gpt-4o'', input_tokens = 950, context_limit = 1000,
          effective_limit = 1000, reserve = 0, remaining_tokens = 50,
          pct_used = float_lit (95 / 100), warning = None,
          error = Some ''error: exceeds budget'', is_approximate = False\<rparr>"
proof (rule analyze_budget_eval)
  show "calculate_reserve 1000 no_reserve_config = Inr 0"
    by (simp add: config_eval float_eval)
  show "(if (1000::int) = 0 then Inr (if (950::int) = 0 then Finite 0 else float_lit (99999 / 100))
          else and_then (py_truediv 950 1000) (\<lambda>q. py_round q 2)) = Inr (float_lit (95 / 100))"
    by (simp add: float_eval)
  show "check_thresholds (float_lit (95 / 100)) 50 = (None, Some ''error: exceeds budget'')"
    by (simp add: check_thresholds_def float_eval)
qed (simp_all add: config_eval)

lemma scenario_d:
  "analyze_budget (counted 100) test_model override_config =
     Inr \<lparr>BudgetResult.model = ''gpt-4o'', input_tokens = 100, context_limit = 1000,
          effective_limit = 800, reserve = 160, remaining_tokens = 540,
          pct_used = float_lit (12 / 100), warning = None, error = None,
          is_approximate = False\<rparr>"
proof (rule analyze_budget_eval)
  show "calculate_reserve 800 override_config = Inr 160"
    by (simp add: config_eval float_eval)
  show "(if (800::int) = 0 then Inr (if (100::int) = 0 then Finite 0 else float_lit (99999 / 100))
          else and_then (py_truediv 100 800) (\<lambda>q. py_round q 2)) = Inr (float_lit (12 / 100))"
    by (simp add: float_eval)
  show "check_thresholds (float_lit (12 / 100)) 540 = (None, None)"
    by (simp add: check_thresholds_def float_eval)
qed (simp_all add: config_eval)

lemma scenario_335:
  "analyze_budget (counted 335) test_model no_reserve_config =
     Inr \<lparr>BudgetResult.model = ''gpt-4o'', input_tokens = 335, context_limit = 1000,
          effective_limit = 1000, reserve = 0, remaining_tokens = 665,
          pct_used = float_lit (34 / 100), warning = None, error = None,
          is_approximate = False\<rparr>"
proof (rule analyze_budget_eval)
  show "calculate_reserve 1000 no_reserve_config = Inr 0"
    by (simp add: config_eval float_eval)
  show "(if (1000::int) = 0 then Inr (if (335::int) = 0 then Finite 0 else float_lit (99999 / 100))
          else and_then (py_truediv 335 1000) (\<lambda>q. py_round q 2)) = Inr (float_lit (34 / 100))"
    by (simp add: float_eval)
  show "check_thresholds (float_lit (34 / 100)) 665 = (None, None)"
    by (simp add: check_thresholds_def float_eval)
qed (simp_all add: config_eval)


lemma scenario_zero_zero:
  "analyze_budget (counted 0) zero_model test_config =
     Inr \<lparr>BudgetResult.model = ''gpt-4o'', input_tokens = 0, context_limit = 0,
          effective_limit = 0, reserve = 0, remaining_tokens = 0,
          pct_used = Finite 0, warning = None, error = None, is_approximate = False\<rparr>"
proof (rule analyze_budget_eval)
  show "calculate_reserve 0 test_config = Inr 0"
    by (simp add: config_eval2 float_eval)
  show "check_thresholds (Finite 0) 0 = (None, None)"
    by (simp add: check_thresholds_def float_eval)
qed (simp_all add: config_eval2)

lemma scenario_zero_tokens:
  "analyze_budget (counted 100) zero_model test_config =
     Inr \<lparr>BudgetResult.model = ''gpt-4o'', input_tokens = 100, context_limit = 0,
          effective_limit = 0, reserve = 0, remaining_tokens = - 100,
          pct_used = float_lit (99999 / 100), warning = None,
          error = Some ''error: exceeds budget'', is_approximate = False\<rparr>"
proof (rule analyze_budget_eval)
  show "calculate_reserve 0 test_config = Inr 0"
    by (simp add: config_eval2 float_eval)
  show "check_thresholds (float_lit (99999 / 100)) (- 100) =
      (None, Some ''error: exceeds budget'')"
    by (simp add: check_thresholds_def float_eval)
qed (simp_all add: config_eval2)

lemma scenario_zero_absolute_reserve:
  "analyze_budget (counted 0) zero_model absolute_reserve_config =
     Inr \<lparr>BudgetResult.model = ''gpt-4o'', input_tokens = 0, context_limit = 0,
          effective_limit = 0, reserve = 100, remaining_tokens = - 100,
          pct_used = Finite 0, warning = None,
          error = Some ''error: exceeds budget'', is_approximate = False\<rparr>"
proof (rule analyze_budget_eval)
  show "calculate_reserve 0 absolute_reserve_config = Inr 100"
    by (simp add: config_eval2)
  show "check_thresholds (Finite 0) (- 100) = (None, Some ''error: exceeds budget'')"
    by (simp add: check_thresholds_def float_eval)
qed (simp_all add: config_eval2)


lemma reserve_truncation_examples:
  "calculate_reserve 999 (test_config\<lparr>reserve_pct := float_lit (1 / 2)\<rparr>) = Inr 499"
  "calculate_reserve 100 (test_config\<lparr>reserve_pct := float_lit (29 / 100)\<rparr>) = Inr 28"
  "calculate_reserve 1000 (test_config\<lparr>reserve_pct := float_lit (3 / 10)\<rparr>) = Inr 300"
  by (simp_all add: config_eval float_eval)

subsection \<open>Percent used\<close>

text \<open>
  Claim C1 as stated fails. With a context limit of 1000 and an override of 800, 100 tokens
  give the ratio \<open>100/800 = 0.125\<close>, a double and an exact tie between 0.12 and 0.13.
  Rounding half up gives 0.13; \<open>round\<close> gives the double nearest 0.12.
\<close>

theorem percent_used_half_up_counterexample:
  "analyze_budget (counted 100) test_model override_config =
     Inr \<lparr>BudgetResult.model = ''gpt-4o'', input_tokens = 100, context_limit = 1000,
        effective_limit = 800, reserve = 160, remaining_tokens = 540,
        pct_used = float_lit (12 / 100), warning = None,
        error = None, is_approximate = False\<rparr> \<and>
   spec_round_half_up (100 / 800) 2 = 13 / 100 \<and>
   float_lit (12 / 100) \<noteq> float_lit (spec_round_half_up (100 / 800) 2) \<and>
   float_lit (12 / 100) \<noteq> Finite (spec_round_half_up (100 / 800) 2)"
proof -
  have a: "spec_round_half_up (100 / 800) 2 = 13 / 100"
    by (simp add: spec_round_half_up_def)
  have b: "float_lit (12 / 100) \<noteq> float_lit (13 / 100)"
    by (simp add: float_eval)
  have c: "float_lit (12 / 100) \<noteq> Finite (13 / 100)"
    by (simp add: float_eval)
  show ?thesis
    unfolding a using scenario_d b c by simp
qed

text \<open>
  Claim C1, amended. For an outcome without error and an effective limit other than zero,
  \<open>pct_used\<close> is the double nearest to \<open>k/100\<close>, where \<open>k\<close> is the integer nearest
  to \<open>100 q\<close>, an exact tie going to the even \<open>k\<close>, and \<open>q\<close> is the double nearest to
  the ratio of the token count to the effective limit; \<open>q\<close> differs from the ratio by at
  most \<open>2^-53\<close> of it (for a ratio of at least \<open>2^-1022\<close>).
\<close>

theorem percent_used_rounding:
  assumes "\<not> truthy (CountingResult.error cr)"
    and "analyze_budget cr m cfg = Inr r"
    and "effective_limit r \<noteq> 0"
  shows "\<exists>q k. round_to_double (of_int (CountingResult.input_tokens cr) /
                     of_int (effective_limit r)) = Finite q \<and>
     k = round_half_even (q * 100) \<and>
     pct_used r = float_lit (of_int k / 100) \<and>
     \<bar>q * 100 - of_int k\<bar> \<le> 1 / 2 \<and>
     (\<bar>q * 100 - of_int k\<bar> = 1 / 2 \<longrightarrow> even k) \<and>
     (2 powi (- 1022) \<le> \<bar>of_int (CountingResult.input_tokens cr) /
                           of_int (effective_limit r) :: rat\<bar> \<longrightarrow>
        \<bar>q - of_int (CountingResult.input_tokens cr) / of_int (effective_limit r)\<bar> \<le>
        \<bar>of_int (CountingResult.input_tokens cr) / of_int (effective_limit r)\<bar> *
          2 powi (- 53))"
  using assms(1,2)
proof (rule analyze_budget_cases)
  fix rsv pct
  assume pct: "(if calculate_effective_limit m cfg = 0
          then Inr (if CountingResult.input_tokens cr = 0 then Finite 0
                    else float_lit (99999 / 100))
          else and_then (py_truediv (CountingResult.input_tokens cr)
                           (calculate_effective_limit m cfg)) (\<lambda>q. py_round q 2)) = Inr pct"
    and r: "r = \<lparr>BudgetResult.model = name m,
          input_tokens = CountingResult.input_tokens cr,
          context_limit = ModelDefinition.context_limit m,
          effective_limit = calculate_effective_limit m cfg,
          reserve = rsv,
          remaining_tokens =
            calculate_effective_limit m cfg - rsv - CountingResult.input_tokens cr,
          pct_used = pct,
          warning = fst (check_thresholds pct
            (calculate_effective_limit m cfg - rsv - CountingResult.input_tokens cr)),
          error = snd (check_thresholds pct
            (calculate_effective_limit m cfg - rsv - CountingResult.input_tokens cr)),
          is_approximate = CountingResult.is_approximate cr\<rparr>"
  from r have eff: "effective_limit r = calculate_effective_limit m cfg"
    and p: "pct_used r = pct" by simp_all
  from assms(3) eff have nz: "calculate_effective_limit m cfg \<noteq> 0" by simp
  with pct obtain q0 where
    d: "py_truediv (CountingResult.input_tokens cr) (calculate_effective_limit m cfg) = Inr q0"
    and rr: "py_round q0 2 = Inr pct"
    by (auto simp: and_then_def split: sum.splits)
  from d obtain q where
    q: "round_to_double (of_int (CountingResult.input_tokens cr) /
          of_int (calculate_effective_limit m cfg)) = Finite q" and q0: "q0 = Finite q"
    by (rule py_truediv_Inr)
  from rr q0 have "pct = float_lit (of_int (round_half_even (q * 100)) / 100)"
    by (simp add: py_round_2_Inr)
  with q p eff round_half_even_nearest [of "q * 100"]
    round_to_double_relative_error [OF q]
  show ?thesis
    by auto
qed

theorem percent_used_rounding_witness:
  "\<not> truthy (CountingResult.error (counted 335)) \<and>
   analyze_budget (counted 335) test_model no_reserve_config =
     Inr \<lparr>BudgetResult.model = ''gpt-4o'', input_tokens = 335, context_limit = 1000,
        effective_limit = 1000, reserve = 0, remaining_tokens = 665,
        pct_used = float_lit (34 / 100), warning = None,
        error = None, is_approximate = False\<rparr> \<and>
   round_to_double (of_int 335 / of_int 1000) =
     Finite (6034823500676465 / 18014398509481984) \<and>
   round_half_even (6034823500676465 / 18014398509481984 * 100) = 34 \<and>
   pct_used \<lparr>BudgetResult.model = ''gpt-4o'', input_tokens = 335, context_limit = 1000,
        effective_limit = 1000, reserve = 0, remaining_tokens = 665,
        pct_used = float_lit (34 / 100), warning = None,
        error = None, is_approximate = False\<rparr> = float_lit (of_int 34 / 100) \<and>
   \<bar>6034823500676465 / 18014398509481984 * 100 - of_int 34 :: rat\<bar> \<le> 1 / 2"
proof -
  let ?r = "\<lparr>BudgetResult.model = ''gpt-4o'', input_tokens = 335, context_limit = 1000,
        effective_limit = 1000, reserve = 0, remaining_tokens = 665,
        pct_used = float_lit (34 / 100), warning = None,
        error = None, is_approximate = False\<rparr>"
  have h1: "\<not> truthy (CountingResult.error (counted 335))"
    by (simp add: counted_simps)
  have h3: "effective_limit ?r \<noteq> 0"
    by simp
  have e1: "round_to_double (of_int 335 / of_int 1000) =
      Finite (6034823500676465 / 18014398509481984)"
    by (simp add: float_eval)
  have e2: "round_half_even (6034823500676465 / 18014398509481984 * 100) = 34"
    by (simp add: float_eval)
  from percent_used_rounding [OF h1 scenario_335 h3] obtain q k where
    q: "round_to_double (of_int (CountingResult.input_tokens (counted 335)) /
          of_int (effective_limit ?r)) = Finite q"
    and k: "k = round_half_even (q * 100)"
    and p: "pct_used ?r = float_lit (of_int k / 100)"
    and n: "\<bar>q * 100 - of_int k\<bar> \<le> 1 / 2"
    by blast
  from q e1 have q': "q = 6034823500676465 / 18014398509481984"
    by (simp add: counted_simps)
  with k e2 have k': "k = 34" by simp
  from p n have "pct_used ?r = float_lit (of_int 34 / 100)"
    and "\<bar>6034823500676465 / 18014398509481984 * 100 - of_int 34 :: rat\<bar> \<le> 1 / 2"
    unfolding q' k' by simp_all
  with h1 scenario_335 e1 e2 show ?thesis by blast
qed

subsection \<open>Threshold classification\<close>

text \<open>
  Claim C2. In a record that \<open>analyze_budget\<close> returns for an outcome without error,
  the error is ``error: exceeds budget'' exactly when \<open>pct_used >= 0.95\<close> or the remaining
  tokens are negative, and is absent otherwise; the warning is ``warning: near limit''
  exactly when there is no error and \<open>pct_used >= 0.80\<close>. In no record that
  \<open>analyze_budget\<close> returns are the warning and the error both set.
\<close>

theorem threshold_classification:
  assumes "analyze_budget cr m cfg = Inr r"
  shows "(\<not> truthy (CountingResult.error cr) \<longrightarrow>
      BudgetResult.error r =
        (if float_ge (pct_used r) (float_lit (95 / 100)) \<or> remaining_tokens r < 0
         then Some ''error: exceeds budget'' else None) \<and>
      warning r =
        (if BudgetResult.error r = None \<and> float_ge (pct_used r) (float_lit (80 / 100))
         then Some ''warning: near limit'' else None)) \<and>
    \<not> (warning r \<noteq> None \<and> BudgetResult.error r \<noteq> None)"
proof (cases "truthy (CountingResult.error cr)")
  case True
  with assms show ?thesis by (auto simp: analyze_budget_short_circuit)
next
  case False
  from False assms show ?thesis
    by (rule analyze_budget_cases) (use False in \<open>simp add: check_thresholds_fst_snd\<close>)
qed

theorem threshold_classification_witness:
  "analyze_budget (counted 800) test_model no_reserve_config =
     Inr \<lparr>BudgetResult.model = ''gpt-4o'', input_tokens = 800, context_limit = 1000,
        effective_limit = 1000, reserve = 0, remaining_tokens = 200,
        pct_used = float_lit (80 / 100), warning = Some ''warning: near limit'',
        error = None, is_approximate = False\<rparr> \<and>
   analyze_budget (counted 950) test_model no_reserve_config =
     Inr \<lparr>BudgetResult.model = ''gpt-4o'', input_tokens = 950, context_limit = 1000,
        effective_limit = 1000, reserve = 0, remaining_tokens = 50,
        pct_used = float_lit (95 / 100), warning = None,
        error = Some ''error: exceeds budget'', is_approximate = False\<rparr> \<and>
   float_ge (float_lit (80 / 100)) (float_lit (80 / 100)) \<and>
   \<not> float_ge (float_lit (80 / 100)) (float_lit (95 / 100)) \<and>
   float_ge (float_lit (95 / 100)) (float_lit (95 / 100))"
proof -
  let ?b = "\<lparr>BudgetResult.model = ''gpt-4o'', input_tokens = 800, context_limit = 1000,
        effective_limit = 1000, reserve = 0, remaining_tokens = 200,
        pct_used = float_lit (80 / 100), warning = Some ''warning: near limit'',
        error = None, is_approximate = False\<rparr>"
  let ?c = "\<lparr>BudgetResult.model = ''gpt-4o'', input_tokens = 950, context_limit = 1000,
        effective_limit = 1000, reserve = 0, remaining_tokens = 50,
        pct_used = float_lit (95 / 100), warning = None,
        error = Some ''error: exceeds budget'', is_approximate = False\<rparr>"
  have h: "\<not> truthy (CountingResult.error (counted 800))"
    "\<not> truthy (CountingResult.error (counted 950))"
    by (simp_all add: counted_simps)
  have b: "BudgetResult.error ?b =
        (if float_ge (pct_used ?b) (float_lit (95 / 100)) \<or> remaining_tokens ?b < 0
         then Some ''error: exceeds budget'' else None)"
    and b': "warning ?b =
        (if BudgetResult.error ?b = None \<and> float_ge (pct_used ?b) (float_lit (80 / 100))
         then Some ''warning: near limit'' else None)"
    using threshold_classification [OF scenario_b] h by blast+
  have c: "BudgetResult.error ?c =
        (if float_ge (pct_used ?c) (float_lit (95 / 100)) \<or> remaining_tokens ?c < 0
         then Some ''error: exceeds budget'' else None)"
    using threshold_classification [OF scenario_c] h by blast
  from b have 1: "\<not> float_ge (float_lit (80 / 100)) (float_lit (95 / 100))"
    by (simp split: if_splits)
  from b' have 2: "float_ge (float_lit (80 / 100)) (float_lit (80 / 100))"
    by (simp split: if_splits)
  from c have 3: "float_ge (float_lit (95 / 100)) (float_lit (95 / 100))"
    by (simp split: if_splits)
  from scenario_b scenario_c 1 2 3 show ?thesis by blast
qed

subsection \<open>Counting errors\<close>




subsection \<open>Reserve\<close>



subsection \<open>Zero capacity\<close>

text \<open>
  Claim C6 as stated fails when the configuration has a positive absolute reserve: with an
  effective limit of 0 and a token count of 0 the remaining tokens are \<open>- reserve\<close>, and
  the error is set.
\<close>

theorem zero_capacity_reserve_counterexample:
  "\<not> truthy (CountingResult.error (counted 0)) \<and>
   calculate_effective_limit zero_model absolute_reserve_config = 0 \<and>
   CountingResult.input_tokens (counted 0) = 0 \<and>
   analyze_budget (counted 0) zero_model absolute_reserve_config =
     Inr \<lparr>BudgetResult.model = ''gpt-4o'', input_tokens = 0, context_limit = 0,
        effective_limit = 0, reserve = 100, remaining_tokens = - 100,
        pct_used = Finite 0, warning = None,
        error = Some ''error: exceeds budget'', is_approximate = False\<rparr>"
  using scenario_zero_absolute_reserve
  by (simp add: counted_simps config_eval2)

text \<open>
  Claim C6, amended. For an outcome without error and an effective limit of 0: when the
  token count is 0, \<open>pct_used\<close> is 0.0, there is no warning, and there is no error
  provided the reserve is not positive (with a positive reserve the error is set); when
  the token count is positive, \<open>pct_used\<close> is 999.99, the error is set and there is no
  warning.
\<close>

theorem zero_capacity:
  assumes "\<not> truthy (CountingResult.error cr)"
    and "calculate_effective_limit m cfg = 0"
    and "analyze_budget cr m cfg = Inr r"
  shows "effective_limit r = 0 \<and>
    (CountingResult.input_tokens cr = 0 \<longrightarrow>
       pct_used r = Finite 0 \<and> warning r = None \<and>
       (reserve r \<le> 0 \<longrightarrow> BudgetResult.error r = None) \<and>
       (0 < reserve r \<longrightarrow> BudgetResult.error r = Some ''error: exceeds budget'')) \<and>
    (0 < CountingResult.input_tokens cr \<longrightarrow>
       pct_used r = float_lit (99999 / 100) \<and> warning r = None \<and>
       BudgetResult.error r = Some ''error: exceeds budget'')"
  using assms(1,3)
proof (rule analyze_budget_cases)
  fix rsv pct
  assume pct: "(if calculate_effective_limit m cfg = 0
          then Inr (if CountingResult.input_tokens cr = 0 then Finite 0
                    else float_lit (99999 / 100))
          else and_then (py_truediv (CountingResult.input_tokens cr)
                           (calculate_effective_limit m cfg)) (\<lambda>q. py_round q 2)) = Inr pct"
    and r: "r = \<lparr>BudgetResult.model = name m,
          input_tokens = CountingResult.input_tokens cr,
          context_limit = ModelDefinition.context_limit m,
          effective_limit = calculate_effective_limit m cfg,
          reserve = rsv,
          remaining_tokens =
            calculate_effective_limit m cfg - rsv - CountingResult.input_tokens cr,
          pct_used = pct,
          warning = fst (check_thresholds pct
            (calculate_effective_limit m cfg - rsv - CountingResult.input_tokens cr)),
          error = snd (check_thresholds pct
            (calculate_effective_limit m cfg - rsv - CountingResult.input_tokens cr)),
          is_approximate = CountingResult.is_approximate cr\<rparr>"
  from pct assms(2) have
    p: "pct = (if CountingResult.input_tokens cr = 0 then Finite 0 else float_lit (99999 / 100))"
    by simp
  show ?thesis
    unfolding r p assms(2)
    using float_ge_zero_literals
    by (simp add: check_thresholds_fst_snd)
qed

theorem zero_capacity_witness:
  "\<not> truthy (CountingResult.error (counted 0)) \<and>
   \<not> truthy (CountingResult.error (counted 100)) \<and>
   calculate_effective_limit zero_model test_config = 0 \<and>
   analyze_budget (counted 0) zero_model test_config =
     Inr \<lparr>BudgetResult.model = ''gpt-4o'', input_tokens = 0, context_limit = 0,
        effective_limit = 0, reserve = 0, remaining_tokens = 0,
        pct_used = Finite 0, warning = None,
        error = None, is_approximate = False\<rparr> \<and>
   analyze_budget (counted 100) zero_model test_config =
     Inr \<lparr>BudgetResult.model = ''gpt-4o'', input_tokens = 100, context_limit = 0,
        effective_limit = 0, reserve = 0, remaining_tokens = - 100,
        pct_used = float_lit (99999 / 100), warning = None,
        error = Some ''error: exceeds budget'', is_approximate = False\<rparr> \<and>
   float_ge (float_lit (99999 / 100)) (float_lit (95 / 100))"
proof -
  let ?z = "\<lparr>BudgetResult.model = ''gpt-4o'', input_tokens = 0, context_limit = 0,
        effective_limit = 0, reserve = 0, remaining_tokens = 0,
        pct_used = Finite 0, warning = None,
        error = None, is_approximate = False\<rparr>"
  let ?t = "\<lparr>BudgetResult.model = ''gpt-4o'', input_tokens = 100, context_limit = 0,
        effective_limit = 0, reserve = 0, remaining_tokens = - 100,
        pct_used = float_lit (99999 / 100), warning = None,
        error = Some ''error: exceeds budget'', is_approximate = False\<rparr>"
  have h1: "\<not> truthy (CountingResult.error (counted 0))"
    "\<not> truthy (CountingResult.error (counted 100))"
    by (simp_all add: counted_simps)
  have h2: "calculate_effective_limit zero_model test_config = 0"
    by (simp add: config_eval2)
  have z: "pct_used ?z = Finite 0 \<and> warning ?z = None \<and> BudgetResult.error ?z = None"
    using zero_capacity [OF h1(1) h2 scenario_zero_zero] by (simp add: counted_simps)
  have t: "pct_used ?t = float_lit (99999 / 100) \<and>
      BudgetResult.error ?t = Some ''error: exceeds budget''"
    using zero_capacity [OF h1(2) h2 scenario_zero_tokens] by (simp add: counted_simps)
  have g: "float_ge (float_lit (99999 / 100)) (float_lit (95 / 100))"
    by (rule float_ge_zero_literals)
  from z t h1 h2 scenario_zero_zero scenario_zero_tokens g show ?thesis by blast
qed

subsection \<open>Effective limit\<close>

text \<open>
  Claim C7. The effective limit is the model's context limit when \<open>max_tokens\<close> is
  absent and the smaller of the two when it is present; it never exceeds the context
  limit, also in the records that \<open>analyze_budget\<close> returns.
\<close>

theorem effective_limit_override:
  "calculate_effective_limit m cfg =
     (case max_tokens cfg of
        None \<Rightarrow> ModelDefinition.context_limit m
      | Some n \<Rightarrow> min (ModelDefinition.context_limit m) n) \<and>
   calculate_effective_limit m cfg \<le> ModelDefinition.context_limit m \<and>
   (analyze_budget cr m cfg = Inr r \<longrightarrow>
      effective_limit r \<le> ModelDefinition.context_limit m \<and>
      (\<not> truthy (CountingResult.error cr) \<longrightarrow>
         effective_limit r = calculate_effective_limit m cfg))"
proof -
  have le: "calculate_effective_limit m cfg \<le> ModelDefinition.context_limit m"
    by (simp add: calculate_effective_limit_def split: option.splits)
  have "effective_limit r \<le> ModelDefinition.context_limit m \<and>
      (\<not> truthy (CountingResult.error cr) \<longrightarrow>
         effective_limit r = calculate_effective_limit m cfg)"
    if r: "analyze_budget cr m cfg = Inr r"
  proof (cases "truthy (CountingResult.error cr)")
    case True
    with r show ?thesis by (auto simp: analyze_budget_short_circuit)
  next
    case False
    from False r show ?thesis
      by (rule analyze_budget_cases) (use le False in simp)
  qed
  with le show ?thesis
    by (simp add: calculate_effective_limit_def split: option.splits)
qed

theorem effective_limit_override_witness:
  "max_tokens override_config = Some 800 \<and>
   ModelDefinition.context_limit test_model = 1000 \<and>
   calculate_effective_limit test_model override_config = 800 \<and>
   calculate_effective_limit test_model test_config = 1000 \<and>
   analyze_budget (counted 100) test_model override_config =
     Inr \<lparr>BudgetResult.model = ''gpt-4o'', input_tokens = 100, context_limit = 1000,
        effective_limit = 800, reserve = 160, remaining_tokens = 540,
        pct_used = float_lit (12 / 100), warning = None,
        error = None, is_approximate = False\<rparr> \<and>
   effective_limit \<lparr>BudgetResult.model = ''gpt-4o'', input_tokens = 100, context_limit = 1000,
        effective_limit = 800, reserve = 160, remaining_tokens = 540,
        pct_used = float_lit (12 / 100), warning = None,
        error = None, is_approximate = False\<rparr> \<le> ModelDefinition.context_limit test_model"
proof -
  have h1: "max_tokens override_config = Some 800"
    and h1': "max_tokens test_config = None"
    and h2: "ModelDefinition.context_limit test_model = 1000"
    by (simp_all add: config_eval)
  from effective_limit_override [of test_model override_config "counted 100"
      "\<lparr>BudgetResult.model = ''gpt-4o'', input_tokens = 100, context_limit = 1000,
        effective_limit = 800, reserve = 160, remaining_tokens = 540,
        pct_used = float_lit (12 / 100), warning = None,
        error = None, is_approximate = False\<rparr>"] scenario_d h1 h2
  have a: "calculate_effective_limit test_model override_config = 800"
    and b: "effective_limit \<lparr>BudgetResult.model = ''gpt-4o'', input_tokens = 100, context_limit = 1000,
        effective_limit = 800, reserve = 160, remaining_tokens = 540,
        pct_used = float_lit (12 / 100), warning = None,
        error = None, is_approximate = False\<rparr> \<le> ModelDefinition.context_limit test_model"
    by simp_all
  from effective_limit_override [of test_model test_config "counted 100"
      "\<lparr>BudgetResult.model = ''gpt-4o'', input_tokens = 100, context_limit = 1000,
        effective_limit = 800, reserve = 160, remaining_tokens = 540,
        pct_used = float_lit (12 / 100), warning = None,
        error = None, is_approximate = False\<rparr>"] h1' h2
  have c: "calculate_effective_limit test_model test_config = 1000"
    by simp
  from h1 h2 a b c scenario_d show ?thesis by blast
qed


end
